theory Spec2Isabelle
  imports Complex_Main "HOL-Library.Sublist" "HOL-Library.Log_Nat"
begin

section \<open>JavaScript values that reach \<open>menu\<close>\<close>

text \<open>
  \<open>js/template.js\<close> defines one function, \<open>menu(index, relativePath)\<close>. Its first
  argument is only ever compared with the loop counter by \<open>==\<close>, so it is modelled as an
  arbitrary primitive JavaScript value. Objects are left out: comparing an object with a
  number runs the object's own conversion code.

  The second argument is the path prefix: a string, or absent (\<open>undefined\<close>), which is
  what the test \<open>typeof relativePath !== 'undefined'\<close> tells apart.

  A Number is its exact value (a double is a rational number), or one of the three
  non-finite values. The two zeros are one value here: \<open>==\<close> does not tell them apart.
  Strings are lists of characters; a \<open>char\<close> is read as a code unit below 256.
\<close>

datatype jsnum = NaN | PosInf | NegInf | Fin rat

datatype jsval =
    JUndefined
  | JNull
  | JBool bool
  | JNum jsnum
  | JStr string
  | JBigInt int
  | JSymbol string

subsection \<open>Rounding a mathematical value to a double\<close>

definition pow2 :: "int \<Rightarrow> rat" where
  "pow2 k = (if 0 \<le> k then 2 ^ nat k else 1 / 2 ^ nat (- k))"

definition floor_log2 :: "rat \<Rightarrow> int" where
  \<comment> \<open>for \<open>0 < q\<close>: the \<open>k\<close> with \<open>2 ^ k \<le> q < 2 ^ (k + 1)\<close>\<close>
  "floor_log2 q =
     (let k = bitlen (fst (quotient_of q)) - bitlen (snd (quotient_of q))
      in if pow2 k \<le> q then k else k - 1)"

definition RoundMVResult :: "rat \<Rightarrow> jsnum" where
  \<comment> \<open>round to nearest, ties to even, 53 significant bits, exponents -1022 .. 1023\<close>
  "RoundMVResult q =
     (if q = 0 then Fin 0
      else
        let a = \<bar>q\<bar>;
            e = max (floor_log2 a) (- 1022);
            ulp = pow2 (e - 52);
            n = a / ulp;
            f = \<lfloor>n\<rfloor>;
            r = n - of_int f;
            m = (if r < 1 / 2 then f else if 1 / 2 < r then f + 1 else if even f then f else f + 1);
            v = of_int m * ulp
        in if pow2 1024 \<le> v then (if q < 0 then NegInf else PosInf)
           else Fin (if q < 0 then - v else v))"

subsection \<open>StringToNumber\<close>

definition is_StrWhiteSpaceChar :: "char \<Rightarrow> bool" where
  "is_StrWhiteSpaceChar c =
     (c \<in> set [CHR 0x09, CHR 0x0A, CHR 0x0B, CHR 0x0C, CHR 0x0D, CHR 0x20, CHR 0xA0])"

definition trim :: "string \<Rightarrow> string" where
  "trim s = rev (dropWhile is_StrWhiteSpaceChar (rev (dropWhile is_StrWhiteSpaceChar s)))"

definition digit_value :: "char \<Rightarrow> int" where
  \<comment> \<open>36 for a character that is no digit in any base up to 16\<close>
  "digit_value c =
     (let n = (of_char c :: int)
      in if 48 \<le> n \<and> n \<le> 57 then n - 48
         else if 97 \<le> n \<and> n \<le> 102 then n - 87
         else if 65 \<le> n \<and> n \<le> 70 then n - 55
         else 36)"

definition is_digit :: "int \<Rightarrow> char \<Rightarrow> bool" where
  "is_digit base c = (digit_value c < base)"

definition digits_MV :: "int \<Rightarrow> string \<Rightarrow> int" where
  "digits_MV base ds = foldl (\<lambda>acc c. acc * base + digit_value c) 0 ds"

definition Digits :: "int \<Rightarrow> string \<Rightarrow> int option" where
  \<comment> \<open>one or more digits of the base, up to the end of the string\<close>
  "Digits base ds = (if ds \<noteq> [] \<and> list_all (is_digit base) ds then Some (digits_MV base ds) else None)"

definition SignedInteger :: "string \<Rightarrow> int option" where
  "SignedInteger s =
     (case s of
        [] \<Rightarrow> None
      | c # t \<Rightarrow>
          if c = CHR ''+'' then Digits 10 t
          else if c = CHR ''-'' then map_option uminus (Digits 10 t)
          else Digits 10 s)"

definition ExponentPart :: "string \<Rightarrow> int option" where
  \<comment> \<open>the optional exponent that ends a decimal literal; \<open>None\<close> when the rest is malformed\<close>
  "ExponentPart s =
     (case s of
        [] \<Rightarrow> Some 0
      | c # t \<Rightarrow> if c = CHR ''e'' \<or> c = CHR ''E'' then SignedInteger t else None)"

definition StrUnsignedDecimalLiteral :: "string \<Rightarrow> rat option" where
  "StrUnsignedDecimalLiteral s =
     (let ip = takeWhile (is_digit 10) s;
          r1 = dropWhile (is_digit 10) s;
          fp = (case r1 of [] \<Rightarrow> [] | c # t \<Rightarrow> if c = CHR ''.'' then takeWhile (is_digit 10) t else []);
          r2 = (case r1 of [] \<Rightarrow> [] | c # t \<Rightarrow> if c = CHR ''.'' then dropWhile (is_digit 10) t else r1)
      in if ip = [] \<and> fp = [] then None
         else map_option
                (\<lambda>e. (of_int (digits_MV 10 ip) + of_int (digits_MV 10 fp) / 10 ^ length fp) * 10 powi e)
                (ExponentPart r2))"

definition unsigned_value :: "string \<Rightarrow> jsnum" where
  "unsigned_value s =
     (if s = ''Infinity'' then PosInf
      else case StrUnsignedDecimalLiteral s of None \<Rightarrow> NaN | Some q \<Rightarrow> RoundMVResult q)"

fun negate :: "jsnum \<Rightarrow> jsnum" where
  "negate NaN = NaN"
| "negate PosInf = NegInf"
| "negate NegInf = PosInf"
| "negate (Fin q) = Fin (- q)"

definition StrDecimalLiteral :: "string \<Rightarrow> jsnum" where
  "StrDecimalLiteral s =
     (case s of
        [] \<Rightarrow> NaN
      | c # t \<Rightarrow>
          if c = CHR ''+'' then unsigned_value t
          else if c = CHR ''-'' then negate (unsigned_value t)
          else unsigned_value s)"

definition NonDecimalIntegerLiteral :: "string \<Rightarrow> int option" where
  "NonDecimalIntegerLiteral s =
     (case s of
        z # c # ds \<Rightarrow>
          if z \<noteq> CHR ''0'' then None
          else if c = CHR ''x'' \<or> c = CHR ''X'' then Digits 16 ds
          else if c = CHR ''o'' \<or> c = CHR ''O'' then Digits 8 ds
          else if c = CHR ''b'' \<or> c = CHR ''B'' then Digits 2 ds
          else None
      | _ \<Rightarrow> None)"

definition StringToNumber :: "string \<Rightarrow> jsnum" where
  "StringToNumber s =
     (let t = trim s
      in if t = [] then Fin 0
         else case NonDecimalIntegerLiteral t of
                Some n \<Rightarrow> RoundMVResult (of_int n)
              | None \<Rightarrow> StrDecimalLiteral t)"

subsection \<open>The comparison \<open>index == i\<close>\<close>

fun Number_equal :: "jsnum \<Rightarrow> jsnum \<Rightarrow> bool" where
  "Number_equal NaN y = False"
| "Number_equal x NaN = False"
| "Number_equal x y = (x = y)"

fun IsLooselyEqual :: "jsval \<Rightarrow> jsnum \<Rightarrow> bool" where
  \<comment> \<open>\<open>x == y\<close> for a Number \<open>y\<close>\<close>
  "IsLooselyEqual (JNum x) y = Number_equal x y"
| "IsLooselyEqual JUndefined y = False"
| "IsLooselyEqual JNull y = False"
| "IsLooselyEqual (JStr s) y = Number_equal (StringToNumber s) y"
| "IsLooselyEqual (JBigInt n) y = (case y of Fin q \<Rightarrow> of_int n = q | _ \<Rightarrow> False)"
| "IsLooselyEqual (JBool b) y = Number_equal (Fin (if b then 1 else 0)) y"
| "IsLooselyEqual (JSymbol d) y = False"

section \<open>The function \<open>menu\<close>\<close>

text \<open>
  The state of a call: the two local arrays and the sequence of strings handed to
  \<open>document.write\<close> so far, oldest first.
\<close>

record menu_state =
  pages :: "string list"
  titles :: "string list"
  document :: "string list"

definition document_write :: "string \<Rightarrow> menu_state \<Rightarrow> menu_state" where
  "document_write s st = st\<lparr>document := document st @ [s]\<rparr>"

definition elem :: "string list \<Rightarrow> nat \<Rightarrow> string" where
  \<comment> \<open>what \<open>xs[i]\<close> contributes to a string concatenation\<close>
  "elem xs i = (if i < length xs then xs ! i else ''undefined'')"

definition TAB :: char where
  "TAB = CHR 0x09"

function menu_loop :: "jsval \<Rightarrow> string \<Rightarrow> nat \<Rightarrow> menu_state \<Rightarrow> menu_state" where
  "menu_loop index relativePath i st =
     (if i < length (pages st) then
        menu_loop index relativePath (Suc i)
          (if IsLooselyEqual index (Fin (of_nat i)) then
             document_write
               ([TAB, TAB, TAB, TAB] @ ''<li class=\"active\"><a class=\"active\" href=\"'' @ relativePath
                  @ elem (pages st) i @ ''\">'' @ elem (titles st) i @ ''</a></li>'') st
           else
             document_write
               ([TAB, TAB, TAB, TAB] @ ''<li><a href=\"'' @ relativePath
                  @ elem (pages st) i @ ''\">'' @ elem (titles st) i @ ''</a></li>'') st)
      else st)"
  by pat_completeness auto
termination
  by (relation "measure (\<lambda>(index, relativePath, i, st). length (pages st) - i)")
     (auto simp: document_write_def)

declare menu_loop.simps [simp del]

definition pages_literal :: "string list" where
  "pages_literal = [''index.html'', ''publications.html'', ''bibbase.html'', ''students.html'',
                    ''projects.html'', ''teaching.html'', ''service.html'', ''awards.html'']"

definition titles_literal :: "string list" where
  "titles_literal = [''Home'', ''Publications'', ''BibBase'', ''Students'', ''Projects'',
                     ''Teaching'', ''Service'', ''Awards'']"

definition menu :: "jsval \<Rightarrow> string option \<Rightarrow> string list \<Rightarrow> menu_state" where
  \<comment> \<open>\<open>None\<close> is a \<open>relativePath\<close> that is omitted or \<open>undefined\<close>; \<open>doc\<close> is what was written before the call\<close>
  "menu index relativePath doc =
     (let relativePath = (case relativePath of Some s \<Rightarrow> s | None \<Rightarrow> []);
          st = \<lparr>pages = pages_literal, titles = titles_literal, document = doc\<rparr>;
          st = document_write ''            <ul>'' st;
          st = menu_loop index relativePath 0 st
      in document_write ([TAB, TAB, TAB] @ ''</ul>'') st)"

section \<open>Reading the output\<close>

definition written :: "jsval \<Rightarrow> string option \<Rightarrow> string list" where
  \<comment> \<open>the strings one call hands to \<open>document.write\<close>, in order\<close>
  "written index relativePath = document (menu index relativePath [])"

definition items :: "jsval \<Rightarrow> string option \<Rightarrow> string list" where
  \<comment> \<open>the strings written between the first and the last one\<close>
  "items index relativePath = butlast (tl (written index relativePath))"

definition li_open :: "bool \<Rightarrow> string" where
  \<comment> \<open>a list item up to the opening quote of its \<open>href\<close>\<close>
  "li_open active =
     (if active then [TAB, TAB, TAB, TAB] @ ''<li class=\"active\"><a class=\"active\" href=\"''
      else [TAB, TAB, TAB, TAB] @ ''<li><a href=\"'')"

definition list_item :: "bool \<Rightarrow> string \<Rightarrow> string \<Rightarrow> string" where
  "list_item active target title = li_open active @ target @ ''\">'' @ title @ ''</a></li>''"

definition is_active :: "string \<Rightarrow> bool" where
  \<comment> \<open>the item carries the \<open>active\<close> class\<close>
  "is_active frag = prefix ([TAB, TAB, TAB, TAB] @ ''<li class=\"active\">'') frag"


definition label :: "string \<Rightarrow> string" where
  \<comment> \<open>the visible text of an item: what stands between the last \<open>>\<close> before the closing tags and those tags\<close>
  "label frag = rev (takeWhile (\<lambda>c. c \<noteq> CHR ''>'') (drop (length ''</a></li>'') (rev frag)))"

definition link_target :: "string \<Rightarrow> string" where
  \<comment> \<open>the value of the item's \<open>href\<close>: what stands between its opening quote and the last double quote\<close>
  "link_target frag =
     drop (length (li_open (is_active frag))) (rev (tl (dropWhile (\<lambda>c. c \<noteq> CHR 0x22) (rev frag))))"

definition path_prefix :: "string option \<Rightarrow> string" where
  \<comment> \<open>the prefix in force after the first statement of \<open>menu\<close>\<close>
  "path_prefix relativePath = (case relativePath of Some s \<Rightarrow> s | None \<Rightarrow> [])"

definition row :: "jsval \<Rightarrow> string \<Rightarrow> nat \<Rightarrow> string" where
  \<comment> \<open>the item of table position \<open>j\<close>\<close>
  "row index p j =
     list_item (IsLooselyEqual index (Fin (of_nat j))) (p @ pages_literal ! j) (titles_literal ! j)"

section \<open>The loop in closed form\<close>

lemma tables_document_write:
  "pages (document_write s st) = pages st" "titles (document_write s st) = titles st"
  by (simp_all add: document_write_def)

lemma menu_loop_closed:
  "menu_loop index p i st =
     st\<lparr>document := document st @
        map (\<lambda>j. list_item (IsLooselyEqual index (Fin (of_nat j))) (p @ elem (pages st) j) (elem (titles st) j))
            [i ..< length (pages st)]\<rparr>"
proof (induction index p i st rule: menu_loop.induct)
  case (1 index p i st)
  show ?case
  proof (cases "i < length (pages st)")
    case False
    then show ?thesis by (subst menu_loop.simps) simp
  next
    case True
    show ?thesis
      apply (subst menu_loop.simps)
      apply (simp only: True if_True)
      apply (subst "1.IH"[OF True])
      apply (simp add: upt_conv_Cons[OF True] tables_document_write document_write_def list_item_def li_open_def)
      done
  qed
qed

lemma upt_8: "[0..<8] = [0, 1, 2, 3, 4, 5, 6, 7]"
  by code_simp

lemma length_tables: "length pages_literal = 8" "length titles_literal = 8"
  by (simp_all add: pages_literal_def titles_literal_def)

lemma menu_closed:
  "menu index relativePath doc =
     \<lparr>pages = pages_literal, titles = titles_literal,
      document = doc @ [''            <ul>''] @ map (row index (path_prefix relativePath)) [0..<8]
                   @ [[TAB, TAB, TAB] @ ''</ul>'']\<rparr>"
proof -
  have rows: "map (\<lambda>j. list_item (IsLooselyEqual index (Fin (of_nat j))) (p @ elem pages_literal j) (elem titles_literal j))
          [0 ..< length pages_literal] = map (row index p) [0..<8]" for p
    by (simp add: length_tables elem_def row_def)
  show ?thesis
    unfolding menu_def Let_def menu_loop_closed tables_document_write path_prefix_def[symmetric]
    by (simp add: document_write_def rows)
qed

lemma written_closed:
  "written index relativePath =
     ''            <ul>'' # map (row index (path_prefix relativePath)) [0..<8] @ [[TAB, TAB, TAB] @ ''</ul>'']"
  by (simp add: written_def menu_closed)

lemma items_closed: "items index relativePath = map (row index (path_prefix relativePath)) [0..<8]"
  by (simp add: items_def written_closed butlast_append)


lemma written_items:
  "written index relativePath = [''            <ul>''] @ items index relativePath @ [[TAB, TAB, TAB] @ ''</ul>'']"
  by (simp add: written_closed items_closed)

lemma menu_loop_tables:
  "pages (menu_loop index p i st) = pages st" "titles (menu_loop index p i st) = titles st"
  by (simp_all add: menu_loop_closed)

lemma menu_tables:
  "pages (menu index relativePath doc) = pages_literal" "titles (menu index relativePath doc) = titles_literal"
  by (simp_all add: menu_closed)

lemma zip_tables: "zip pages_literal titles_literal
       = [(''index.html'', ''Home''), (''publications.html'', ''Publications''), (''bibbase.html'', ''BibBase''),
          (''students.html'', ''Students''), (''projects.html'', ''Projects''), (''teaching.html'', ''Teaching''),
          (''service.html'', ''Service''), (''awards.html'', ''Awards'')]"
  unfolding pages_literal_def titles_literal_def by simp

lemma length_items: "length (items index relativePath) = 8"
  by (simp add: items_closed)

lemma items_list:
  "items index relativePath =
     [row index (path_prefix relativePath) 0, row index (path_prefix relativePath) 1,
      row index (path_prefix relativePath) 2, row index (path_prefix relativePath) 3,
      row index (path_prefix relativePath) 4, row index (path_prefix relativePath) 5,
      row index (path_prefix relativePath) 6, row index (path_prefix relativePath) 7]"
  by (simp add: items_closed upt_8)

lemma items_nth: "j < 8 \<Longrightarrow> items index relativePath ! j = row index (path_prefix relativePath) j"
  by (simp add: items_closed)

section \<open>Facts about list items\<close>

lemma is_active_list_item: "is_active (list_item b target title) = b"
  by (simp add: is_active_def list_item_def li_open_def TAB_def)

lemma label_list_item: "CHR ''>'' \<notin> set title \<Longrightarrow> label (list_item b target title) = title"
proof -
  assume t: "CHR ''>'' \<notin> set title"
  have "takeWhile (\<lambda>c. c \<noteq> CHR ''>'') (rev title @ CHR ''>'' # ys) = rev title" for ys
    using t by (subst takeWhile_append2) auto
  then show ?thesis
    by (simp add: label_def list_item_def)
qed

lemma link_target_list_item:
  "CHR 0x22 \<notin> set title \<Longrightarrow> link_target (list_item b target title) = target"
proof -
  assume t: "CHR 0x22 \<notin> set title"
  have "dropWhile (\<lambda>c. c \<noteq> CHR 0x22) (rev title @ CHR ''>'' # CHR 0x22 # ys) = CHR 0x22 # ys" for ys
    using t by (subst dropWhile_append2) auto
  then show ?thesis
    unfolding link_target_def is_active_list_item
    by (simp add: list_item_def)
qed

lemma is_active_row: "is_active (row index p j) = IsLooselyEqual index (Fin (of_nat j))"
  by (simp add: row_def is_active_list_item)

lemma label_row: "j < 8 \<Longrightarrow> label (row index p j) = titles_literal ! j"
proof -
  assume "j < 8"
  then have "j \<in> set [0..<8]" by simp
  then have "CHR ''>'' \<notin> set (titles_literal ! j)"
    unfolding upt_8 by (auto simp: titles_literal_def)
  then show ?thesis unfolding row_def by (rule label_list_item)
qed

lemma link_target_row: "j < 8 \<Longrightarrow> link_target (row index p j) = p @ pages_literal ! j"
proof -
  assume "j < 8"
  then have "j \<in> set [0..<8]" by simp
  then have "CHR 0x22 \<notin> set (titles_literal ! j)"
    unfolding upt_8 by (auto simp: titles_literal_def)
  then show ?thesis unfolding row_def by (rule link_target_list_item)
qed




lemma row_cong:
  "(\<And>j. IsLooselyEqual a (Fin (of_nat j)) = IsLooselyEqual b (Fin (of_nat j))) \<Longrightarrow> row a p = row b p"
  by (rule ext) (simp add: row_def)

lemma filter_upt_eq: "filter (\<lambda>j. j = k) [0..<m] = (if k < m then [k] else [])"
  by (induction m) auto

lemma filter_active_items:
  "filter is_active (items index relativePath) =
     map (row index (path_prefix relativePath))
       (filter (\<lambda>j. IsLooselyEqual index (Fin (of_nat j))) [0..<8])"
  by (simp add: items_closed filter_map comp_def is_active_row)

lemma filter_active_written:
  "filter is_active (written index relativePath) = filter is_active (items index relativePath)"
  unfolding written_items by (simp add: is_active_def TAB_def)

lemma no_match_filter:
  assumes "\<And>j. j < 8 \<Longrightarrow> \<not> IsLooselyEqual index (Fin (of_nat j))"
  shows "filter is_active (items index relativePath) = []"
  unfolding filter_active_items using assms by (simp add: filter_empty_conv)

section \<open>Facts about the comparison\<close>

lemma loose_int: "IsLooselyEqual (JNum (Fin (of_int n))) (Fin (of_nat j)) = (n = int j)"
proof -
  have "(of_int n :: rat) = of_int (int j) \<longleftrightarrow> n = int j"
    by (rule of_int_eq_iff)
  then show ?thesis by simp
qed

lemma Number_equal_Fin: "Number_equal x (Fin q) = (x = Fin q)"
  by (cases x) simp_all

lemma floor_log2_3: "floor_log2 3 = 1"
proof -
  have "bitlen 3 = 2" "bitlen 1 = 1" by code_simp+
  then show ?thesis by (simp add: floor_log2_def Let_def pow2_def)
qed

lemma RoundMVResult_3: "RoundMVResult 3 = Fin 3"
proof -
  have "(3::rat) * 2 ^ 51 < 2 ^ 2 * 2 ^ 51" by simp
  also have "\<dots> = 2 ^ 53" by (simp add: power_add[symmetric])
  also have "\<dots> < 2 ^ 1024" by (rule power_strict_increasing) simp_all
  finally have big: "(3::rat) * 2 ^ 51 < 2 ^ 1024" .
  have "(3::rat) * 2 ^ 51 / 2 ^ 51 = 3" by simp
  with big show ?thesis
    by (simp add: RoundMVResult_def floor_log2_3 Let_def pow2_def)
qed

lemma StringToNumber_3: "StringToNumber ''3'' = Fin 3"
proof -
  have "trim ''3'' = ''3''"
    by (simp add: trim_def is_StrWhiteSpaceChar_def)
  moreover have "NonDecimalIntegerLiteral ''3'' = None"
    by (simp add: NonDecimalIntegerLiteral_def)
  moreover have "StrDecimalLiteral ''3'' = RoundMVResult 3"
    by (simp add: StrDecimalLiteral_def unsigned_value_def StrUnsignedDecimalLiteral_def is_digit_def
          digit_value_def ExponentPart_def digits_MV_def Let_def)
  ultimately show ?thesis
    by (simp add: StringToNumber_def RoundMVResult_3)
qed

section \<open>Which entry is active\<close>

text \<open>
  C1. For every integer index from 0 to 7, exactly one written list item carries the active
  marker, and it is the item of the table row at that position, with the link target and
  the title of that row.
\<close>

theorem menu_valid_index_one_active:
  assumes "0 \<le> n" and "n \<le> 7"
  shows "length (filter is_active (written (JNum (Fin (of_int n))) relativePath)) = 1
       \<and> filter is_active (items (JNum (Fin (of_int n))) relativePath)
           = [items (JNum (Fin (of_int n))) relativePath ! nat n]
       \<and> items (JNum (Fin (of_int n))) relativePath ! nat n
           = [TAB, TAB, TAB, TAB] @ ''<li class=\"active\"><a class=\"active\" href=\"''
               @ path_prefix relativePath @ pages_literal ! nat n @ ''\">'' @ titles_literal ! nat n @ ''</a></li>''"
proof -
  let ?idx = "JNum (Fin (of_int n))"
  let ?p = "path_prefix relativePath"
  from assms have lt: "nat n < 8" by arith
  have "(n = int j) = (j = nat n)" for j
    using assms by auto
  then have "filter (\<lambda>j. IsLooselyEqual ?idx (Fin (of_nat j))) [0..<8] = [nat n]"
    unfolding loose_int using lt by (simp only: filter_upt_eq if_True)
  then have f: "filter is_active (items ?idx relativePath) = [row ?idx ?p (nat n)]"
    by (simp only: filter_active_items list.map)
  from lt have nth: "items ?idx relativePath ! nat n = row ?idx ?p (nat n)"
    by (rule items_nth)
  from assms have "n = int (nat n)" by arith
  then have eq: "IsLooselyEqual ?idx (Fin (of_nat (nat n))) = True"
    unfolding loose_int by (rule eqTrueI)
  have r: "row ?idx ?p (nat n)
           = [TAB, TAB, TAB, TAB] @ ''<li class=\"active\"><a class=\"active\" href=\"''
               @ ?p @ pages_literal ! nat n @ ''\">'' @ titles_literal ! nat n @ ''</a></li>''"
    unfolding row_def eq by (simp add: list_item_def li_open_def)
  have one: "length [row ?idx ?p (nat n)] = 1" by simp
  show ?thesis
    unfolding filter_active_written f nth using one r by blast
qed

theorem menu_valid_index_one_active_witness:
  "(0::int) \<le> 0 \<and> (0::int) \<le> 7
   \<and> filter is_active (items (JNum (Fin 0)) None)
       = [[TAB, TAB, TAB, TAB] @ ''<li class=\"active\"><a class=\"active\" href=\"index.html\">Home</a></li>'']"
  using menu_valid_index_one_active [of 0 None]
  by (simp add: path_prefix_def pages_literal_def titles_literal_def)

section \<open>Indices that match no entry\<close>

text \<open>
  C2, as stated, says that a non-numeric index never matches because the comparison is
  strict. The source compares with \<open>==\<close>: the boolean \<open>true\<close> converts to 1 and marks
  the second entry active.
\<close>

theorem menu_true_marks_entry:
  "filter is_active (items (JBool True) None)
     = [[TAB, TAB, TAB, TAB] @ ''<li class=\"active\"><a class=\"active\" href=\"publications.html\">Publications</a></li>'']"
  by (simp add: filter_active_items upt_8 row_def list_item_def li_open_def path_prefix_def
        pages_literal_def titles_literal_def)

text \<open>
  C2, amended. An index that is \<open>undefined\<close>, \<open>null\<close>, a symbol, a number other than
  0, 1, ..., 7 (negative, above 7, not an integer, NaN or infinite), a bigint outside 0..7, or
  a string whose numeric value is none of 0, ..., 7 marks no entry active, and all eight
  list items are still written.
\<close>

theorem menu_no_match:
  assumes "index = JUndefined \<or> index = JNull \<or> (\<exists>d. index = JSymbol d)
         \<or> (\<exists>x. index = JNum x \<and> (\<forall>k::nat. k \<le> 7 \<longrightarrow> x \<noteq> Fin (of_nat k)))
         \<or> (\<exists>z. index = JBigInt z \<and> (z < 0 \<or> 7 < z))
         \<or> (\<exists>s. index = JStr s \<and> (\<forall>k::nat. k \<le> 7 \<longrightarrow> StringToNumber s \<noteq> Fin (of_nat k)))"
  shows "length (items index relativePath) = 8 \<and> filter is_active (items index relativePath) = []"
proof -
  have "\<not> IsLooselyEqual index (Fin (of_nat j))" if "j < 8" for j
  proof -
    from that have "j \<le> 7" by simp
    with assms show ?thesis
      by (auto simp: Number_equal_Fin)
  qed
  then show ?thesis
    by (simp add: no_match_filter length_items)
qed

theorem menu_no_match_witness:
  "length (items (JNum (Fin 99)) None) = 8 \<and> filter is_active (items (JNum (Fin 99)) None) = []"
  using menu_no_match [of "JNum (Fin 99)" None]
  by simp

section \<open>The order of the entries\<close>

text \<open>
  C3. Whatever the two arguments are, the visible texts of the written list items are, in
  order, Home, Publications, BibBase, Students, Projects, Teaching, Service, Awards.
\<close>

theorem menu_order:
  "map label (items index relativePath)
     = [''Home'', ''Publications'', ''BibBase'', ''Students'', ''Projects'', ''Teaching'', ''Service'', ''Awards'']"
proof -
  have "map label (items index relativePath) = map (\<lambda>j. titles_literal ! j) [0..<8]"
    unfolding items_closed by (simp add: label_row)
  also have "\<dots> = titles_literal"
    using length_tables(2) map_nth [of titles_literal] by simp
  finally show ?thesis by (simp add: titles_literal_def)
qed

section \<open>Link targets\<close>

text \<open>
  C4. The link target of the item of row \<open>i\<close> is \<open>relativePath\<close> followed by
  \<open>pages[i]\<close>; without a \<open>relativePath\<close> it is the page file alone. The instance
  below is \<open>menu(3, "/docs/")\<close>: the fourth item is the active one, its target is
  \<open>/docs/students.html\<close>, and the other seven items are not active.
\<close>

theorem menu_link_targets:
  "map link_target (items index (Some relativePath)) = map (\<lambda>page. relativePath @ page) pages_literal
   \<and> map link_target (items index None) = pages_literal"
proof -
  have "map link_target (items index rp) = map (\<lambda>j. path_prefix rp @ pages_literal ! j) [0..<8]" for rp
    unfolding items_closed by (simp add: link_target_row)
  also have "\<dots> rp = map (\<lambda>page. path_prefix rp @ page) (map (\<lambda>j. pages_literal ! j) [0..<8])" for rp
    by simp
  also have "\<dots> rp = map (\<lambda>page. path_prefix rp @ page) pages_literal" for rp
    using length_tables(1) map_nth [of pages_literal] by simp
  finally show ?thesis by (simp add: path_prefix_def)
qed

theorem menu_link_targets_witness:
  "map link_target (items (JNum (Fin 3)) (Some ''/docs/''))
     = [''/docs/index.html'', ''/docs/publications.html'', ''/docs/bibbase.html'', ''/docs/students.html'',
        ''/docs/projects.html'', ''/docs/teaching.html'', ''/docs/service.html'', ''/docs/awards.html'']
   \<and> map is_active (items (JNum (Fin 3)) (Some ''/docs/''))
     = [False, False, False, True, False, False, False, False]
   \<and> items (JNum (Fin 3)) (Some ''/docs/'') ! 3
     = [TAB, TAB, TAB, TAB] @ ''<li class=\"active\"><a class=\"active\" href=\"/docs/students.html\">Students</a></li>''"
proof -
  have a: "map is_active (items (JNum (Fin 3)) (Some ''/docs/''))
     = [False, False, False, True, False, False, False, False]"
    by (simp add: items_list is_active_row)
  have b: "items (JNum (Fin 3)) (Some ''/docs/'') ! 3
     = [TAB, TAB, TAB, TAB] @ ''<li class=\"active\"><a class=\"active\" href=\"/docs/students.html\">Students</a></li>''"
    by (simp add: items_nth row_def list_item_def li_open_def path_prefix_def pages_literal_def titles_literal_def)
  from menu_link_targets [of "JNum (Fin 3)" "''/docs/''"]
  have c: "map link_target (items (JNum (Fin 3)) (Some ''/docs/''))
     = [''/docs/index.html'', ''/docs/publications.html'', ''/docs/bibbase.html'', ''/docs/students.html'',
        ''/docs/projects.html'', ''/docs/teaching.html'', ''/docs/service.html'', ''/docs/awards.html'']"
    by (simp add: pages_literal_def)
  from a b c show ?thesis by blast
qed

section \<open>The enclosing list\<close>


section \<open>The two tables\<close>

text \<open>
  C6. The two tables have eight entries each, paired by position as listed; neither the
  loop nor a whole call changes either of them.
\<close>

theorem menu_tables_fixed:
  "length pages_literal = 8 \<and> length titles_literal = 8
   \<and> zip pages_literal titles_literal
       = [(''index.html'', ''Home''), (''publications.html'', ''Publications''), (''bibbase.html'', ''BibBase''),
          (''students.html'', ''Students''), (''projects.html'', ''Projects''), (''teaching.html'', ''Teaching''),
          (''service.html'', ''Service''), (''awards.html'', ''Awards'')]
   \<and> pages (menu_loop index p i st) = pages st \<and> titles (menu_loop index p i st) = titles st
   \<and> pages (menu index relativePath doc) = pages_literal
   \<and> titles (menu index relativePath doc) = titles_literal"
  by (intro conjI) (rule length_tables zip_tables menu_loop_tables menu_tables)+

section \<open>Independence of earlier output\<close>


section \<open>Loose equality\<close>

text \<open>
  C8. The comparison is \<open>==\<close>, so some indices that are not numbers select an entry: the
  string \<open>"3"\<close> behaves as the number 3 and the boolean \<open>true\<close> as the number 1.
\<close>

theorem menu_loose_equality:
  "menu (JStr ''3'') relativePath doc = menu (JNum (Fin 3)) relativePath doc
   \<and> menu (JBool True) relativePath doc = menu (JNum (Fin 1)) relativePath doc
   \<and> filter is_active (items (JStr ''3'') relativePath) = [items (JStr ''3'') relativePath ! 3]
   \<and> filter is_active (items (JBool True) relativePath) = [items (JBool True) relativePath ! 1]"
proof -
  have a: "row (JStr ''3'') p = row (JNum (Fin 3)) p" for p
    by (rule row_cong) (simp add: StringToNumber_3)
  have b: "row (JBool True) p = row (JNum (Fin 1)) p" for p
    by (rule row_cong) simp
  have c: "filter is_active (items (JStr ''3'') relativePath) = [items (JStr ''3'') relativePath ! 3]"
    by (simp add: filter_active_items StringToNumber_3 upt_8 items_nth)
  have d: "filter is_active (items (JBool True) relativePath) = [items (JBool True) relativePath ! 1]"
    by (simp add: filter_active_items upt_8 items_nth)
  show ?thesis
    unfolding menu_closed a b using c d by blast
qed

section \<open>The number of writes\<close>


section \<open>The prefix is copied unchanged\<close>

text \<open>
  C10. For every string \<open>relativePath\<close>, each list item consists of its opening up to the
  quote of \<open>href\<close>, then \<open>relativePath\<close> character for character, then the page file
  of its row, then the closing quote, the title and the closing tags. Nothing is escaped; the
  instance below passes a quote and markup through.
\<close>

theorem menu_prefix_verbatim:
  "items index (Some relativePath) =
     map (\<lambda>j. li_open (IsLooselyEqual index (Fin (of_nat j))) @ relativePath @ pages_literal ! j
               @ ''\">'' @ titles_literal ! j @ ''</a></li>'') [0..<8]"
  by (simp add: items_closed row_def list_item_def path_prefix_def)

theorem menu_prefix_verbatim_witness:
  "items JUndefined (Some ''\"><script>'') ! 0
     = [TAB, TAB, TAB, TAB] @ ''<li><a href=\"\"><script>index.html\">Home</a></li>''"
  using menu_prefix_verbatim [of JUndefined "''\"><script>''"]
  by (simp add: li_open_def pages_literal_def titles_literal_def)

end
